theory Spec2Isabelle
  imports Complex_Main
begin

section \<open>Order workflow of the pharmacy backend\<close>

text \<open>
  A shallow embedding of \<^verbatim>\<open>order.utils\<close> (the compiled module holding
  \<^verbatim>\<open>calculateDiscountedPrice\<close>) and of \<^verbatim>\<open>order.services.ts\<close>
  (\<^verbatim>\<open>CreateOrder\<close>, \<^verbatim>\<open>UpdateOrderStatus\<close>).

  JavaScript numbers are modelled exactly: prices, discounts and totals as \<^typ>\<open>real\<close>,
  stock levels and quantities as \<^typ>\<open>int\<close>. Rounding of IEEE doubles, \<^verbatim>\<open>NaN\<close> and
  infinities are outside the model.
\<close>

subsection \<open>Enumerations and errors\<close>

datatype DiscountType = PERCENTAGE | FLAT

text \<open>
  The keys of \<^verbatim>\<open>Record<OrderStatus, OrderStatus[]>\<close> in \<^verbatim>\<open>UpdateOrderStatus\<close>
  are the members of the \<^verbatim>\<open>OrderStatus\<close> type.
\<close>

datatype OrderStatus = PLACED | CONFIRMED | SHIPPED | DELIVERED | CANCELLED

datatype HttpStatus = BAD_REQUEST | UNAUTHORIZED | NOT_FOUND

text \<open>
  \<^verbatim>\<open>new AppError(status, message)\<close> is \<open>AppError status message\<close>; an exception thrown
  by a collaborator (\<^verbatim>\<open>JSON.parse\<close>, the upload) is \<open>ExternalError\<close>.
\<close>

datatype error = AppError (statusCode: HttpStatus) (message: string) | ExternalError string

subsection \<open>Order utilities\<close>

text \<open>
  \<^verbatim>\<open>discount && discountType\<close>: a number is truthy when it is not zero, the discount
  type when it is present (\<open>None\<close> is \<^verbatim>\<open>undefined\<close>).
\<close>

definition calculateDiscountedPrice :: "real \<Rightarrow> real \<Rightarrow> DiscountType option \<Rightarrow> real" where
  "calculateDiscountedPrice price discount discountType =
     (let finalPrice =
        (if discount \<noteq> 0 \<and> discountType \<noteq> None then
           (if discountType = Some PERCENTAGE then price - (price * discount) / 100
            else if discountType = Some FLAT then price - discount
            else price)
         else price)
      in if finalPrice < 0 then 0 else finalPrice)"

text \<open>
  Both generators draw a random UUID, which is an input of the model.
  \<^verbatim>\<open>uuid.replace(/[^a-z0-9]/gi, '')\<close> keeps the ASCII letters and digits.
\<close>

definition isAlphanumeric :: "char \<Rightarrow> bool" where
  "isAlphanumeric c =
     (let n = (of_char c :: nat)
      in (97 \<le> n \<and> n \<le> 122) \<or> (65 \<le> n \<and> n \<le> 90) \<or> (48 \<le> n \<and> n \<le> 57))"

definition toUpperCase :: "string \<Rightarrow> string" where
  "toUpperCase str =
     map (\<lambda>c. let n = (of_char c :: nat) in if 97 \<le> n \<and> n \<le> 122 then char_of (n - 32) else c) str"

definition generateOrderId :: "string \<Rightarrow> string" where
  "generateOrderId uuid = toUpperCase (take 6 (filter isAlphanumeric uuid))"

definition generateTransactionId :: "string \<Rightarrow> string" where
  "generateTransactionId uuid = ''TRX-'' @ toUpperCase (take 10 (filter isAlphanumeric uuid))"

subsection \<open>Documents\<close>

text \<open>
  The fields the order services read or write. \<open>oid\<close> is the document's \<^verbatim>\<open>_id\<close>.
  A field that may be absent is an \<open>option\<close>.
\<close>

record User =
  oid :: string
  email :: string
  status :: string
  is_deleted :: bool

record Product =
  oid :: string
  name :: string
  price :: real
  dosage :: "string option"
  discount :: real
  discount_type :: "DiscountType option"
  stock :: int
  in_stock :: bool
  requires_prescription :: bool
  is_deleted :: bool

text \<open>\<^verbatim>\<open>OrderItem\<close>: one line of the request. \<^verbatim>\<open>OrderItems\<close>: the snapshot kept in the order.\<close>

record OrderItem =
  product_id :: string
  quantity :: int

record OrderItems =
  product_id :: string
  name :: string
  price :: real
  dosage :: "string option"
  discount :: real
  discount_type :: "DiscountType option"
  quantity :: int
  requires_prescription :: bool

record Order =
  oid :: string
  order_id :: string
  customer_id :: string
  products :: "OrderItems list"
  customer_name :: "string option"
  customer_email :: "string option"
  customer_phone :: "string option"
  address :: "string option"
  city :: "string option"
  postal_code :: "string option"
  "notes" :: "string option"
  payment_method :: "string option"
  prescription :: "string option"
  subtotal :: real
  delivery_charge :: real
  grand_total :: real
  transaction_id :: string
  order_status :: OrderStatus
  payment_status :: string

record Payment =
  oid :: string
  order_id :: string
  amount :: real
  transaction_id :: string
  payment_status :: string
  payment_gateway_data :: "string option"

text \<open>
  The request body. \<open>products\<close> holds the value of \<^verbatim>\<open>JSON.parse(products)\<close>;
  \<open>None\<close> when the parser throws.
\<close>

record Payload =
  products :: "OrderItem list option"
  customer_name :: "string option"
  customer_email :: "string option"
  customer_phone :: "string option"
  address :: "string option"
  city :: "string option"
  postal_code :: "string option"
  "notes" :: "string option"
  payment_method :: "string option"

record JwtPayload =
  oid :: string
  email :: string
  role :: string

text \<open>The uploaded file (its \<^verbatim>\<open>stream\<close> is not modelled).\<close>

record FileInterface =
  fieldname :: string
  originalname :: string
  encoding :: string
  mimetype :: string
  size :: nat
  buffer :: string
  destination :: string
  filename :: string
  path :: string

subsection \<open>The store and the environment\<close>

record Store =
  User_collection :: "User list"
  Product_collection :: "Product list"
  Order_collection :: "Order list"
  Payment_collection :: "Payment list"

text \<open>
  What a call takes from outside the services: the two random UUIDs, the identifiers the
  store gives to the inserted documents, the defaults that the schemas of
  \<^verbatim>\<open>order.model\<close> and \<^verbatim>\<open>payment.model\<close> fill in, and the upload to the object
  storage, which returns the \<^verbatim>\<open>secure_url\<close> or throws.
\<close>

record Env =
  order_uuid :: string
  transaction_uuid :: string
  new_order_oid :: string
  new_payment_oid :: string
  default_order_status :: OrderStatus
  default_order_payment_status :: string
  default_payment_status :: string
  uploadToCloudinary :: "FileInterface \<Rightarrow> string \<Rightarrow> string \<Rightarrow> error + string"

text \<open>
  \<^verbatim>\<open>Model.updateOne(filter, update)\<close> changes the first document that matches and
  nothing when none does.
\<close>

fun updateOne :: "('a \<Rightarrow> bool) \<Rightarrow> ('a \<Rightarrow> 'a) \<Rightarrow> 'a list \<Rightarrow> 'a list" where
  "updateOne matches update [] = []"
| "updateOne matches update (d # ds) =
     (if matches d then update d # ds else d # updateOne matches update ds)"

subsection \<open>Order creation\<close>

text \<open>
  A local variable of the source whose name is also a field name carries a prime
  (\<open>subtotal'\<close>, \<open>status'\<close>).
\<close>

record StockUpdate =
  productId :: string
  newStock :: int

text \<open>
  The callback of \<^verbatim>\<open>requestedProducts.map\<close>, run over the products in order. The
  accumulator holds \<^verbatim>\<open>subtotal\<close>, \<^verbatim>\<open>stockUpdates\<close> and the lines mapped so far; a
  \<^verbatim>\<open>throw\<close> ends the loop.
\<close>

fun orderProducts_map ::
  "OrderItem list \<Rightarrow> Product list \<Rightarrow> real \<times> StockUpdate list \<times> OrderItems list
     \<Rightarrow> error + (real \<times> StockUpdate list \<times> OrderItems list)" where
  "orderProducts_map orderItems [] acc = Inr acc"
| "orderProducts_map orderItems (product # rest) (subtotal', stockUpdates, orderProducts) =
     (case find (\<lambda>item. OrderItem.product_id item = Product.oid product) orderItems of
        None \<Rightarrow> Inl (AppError BAD_REQUEST ''Product out of stock'')
      | Some orderItem \<Rightarrow>
          if Product.stock product < OrderItem.quantity orderItem
          then Inl (AppError BAD_REQUEST ''Product out of stock'')
          else
            let finalPrice = calculateDiscountedPrice (Product.price product)
                  (Product.discount product) (Product.discount_type product)
            in orderProducts_map orderItems rest
                 (subtotal' + finalPrice * of_int (OrderItem.quantity orderItem),
                  stockUpdates @ [\<lparr>productId = Product.oid product,
                    newStock = Product.stock product - OrderItem.quantity orderItem\<rparr>],
                  orderProducts @ [\<lparr>OrderItems.product_id = Product.oid product,
                    OrderItems.name = Product.name product,
                    OrderItems.price = Product.price product,
                    OrderItems.dosage = Product.dosage product,
                    OrderItems.discount = Product.discount product,
                    OrderItems.discount_type = Product.discount_type product,
                    OrderItems.quantity = OrderItem.quantity orderItem,
                    OrderItems.requires_prescription = Product.requires_prescription product\<rparr>]))"

text \<open>The prescription gate: the upload happens only when a product requires it.\<close>

definition uploadPrescription ::
  "Env \<Rightarrow> bool \<Rightarrow> FileInterface option \<Rightarrow> string \<Rightarrow> error + string option" where
  "uploadPrescription env isPrescriptionRequired file order_id' =
     (if isPrescriptionRequired then
        (case file of
           None \<Rightarrow> Inl (AppError BAD_REQUEST ''Prescription required'')
         | Some f \<Rightarrow>
             (case uploadToCloudinary env f order_id' ''medimart/prescriptions'' of
                Inl e \<Rightarrow> Inl e
              | Inr secure_url \<Rightarrow> Inr (Some secure_url)))
      else Inr None)"

text \<open>
  \<^verbatim>\<open>Promise.all(stockUpdates.map(... Product.updateOne({_id}, {stock, in_stock}) ...))\<close>:
  inside the transaction the updates take effect one after the other.
\<close>

definition applyStockUpdates :: "StockUpdate list \<Rightarrow> Product list \<Rightarrow> Product list" where
  "applyStockUpdates stockUpdates ps =
     foldl (\<lambda>docs u. updateOne (\<lambda>p. Product.oid p = productId u)
        (\<lambda>p. p\<lparr>Product.stock := newStock u, Product.in_stock := (newStock u > 0)\<rparr>) docs)
       ps stockUpdates"

text \<open>
  \<^verbatim>\<open>User.findOne({email: user.email, status: 'ACTIVE', is_deleted: false})\<close> and
  \<^verbatim>\<open>Product.find({_id: {$in: productIds}, is_deleted: false})\<close>.
\<close>

definition findRequestedUser :: "Store \<Rightarrow> JwtPayload \<Rightarrow> User option" where
  "findRequestedUser s user =
     find (\<lambda>u. User.email u = JwtPayload.email user \<and> User.status u = ''ACTIVE''
                \<and> User.is_deleted u = False) (User_collection s)"

definition findRequestedProducts :: "Store \<Rightarrow> string list \<Rightarrow> Product list" where
  "findRequestedProducts s productIds =
     filter (\<lambda>p. Product.oid p \<in> set productIds \<and> Product.is_deleted p = False)
       (Product_collection s)"

text \<open>
  The document given to \<^verbatim>\<open>Order.create\<close>, with the delivery charge and the grand
  total computed from the subtotal, and the one given to \<^verbatim>\<open>Payment.create\<close>.
\<close>

definition newOrder ::
  "Env \<Rightarrow> Payload \<Rightarrow> User \<Rightarrow> string \<Rightarrow> string option \<Rightarrow> real \<Rightarrow> OrderItems list
     \<Rightarrow> Order" where
  "newOrder env payload requestedUser order_id' prescription' subtotal' orderProducts =
     (let delivery_charge' = (if subtotal' > 1000 then 0 else 50);
          grand_total' = subtotal' + delivery_charge';
          transaction_id' = generateTransactionId (transaction_uuid env)
      in \<lparr>Order.oid = new_order_oid env,
          Order.order_id = order_id',
          Order.customer_id = User.oid requestedUser,
          Order.products = orderProducts,
          Order.customer_name = Payload.customer_name payload,
          Order.customer_email = Payload.customer_email payload,
          Order.customer_phone = Payload.customer_phone payload,
          Order.address = Payload.address payload,
          Order.city = Payload.city payload,
          Order.postal_code = Payload.postal_code payload,
          Order.notes = Payload.notes payload,
          Order.payment_method = Payload.payment_method payload,
          Order.prescription = prescription',
          Order.subtotal = subtotal',
          Order.delivery_charge = delivery_charge',
          Order.grand_total = grand_total',
          Order.transaction_id = transaction_id',
          Order.order_status = default_order_status env,
          Order.payment_status = default_order_payment_status env\<rparr>)"

definition newPayment :: "Env \<Rightarrow> Order \<Rightarrow> Payment" where
  "newPayment env order =
     \<lparr>Payment.oid = new_payment_oid env,
      Payment.order_id = Order.oid order,
      Payment.amount = Order.grand_total order,
      Payment.transaction_id = Order.transaction_id order,
      Payment.payment_status = default_payment_status env,
      Payment.payment_gateway_data = None\<rparr>"

text \<open>The three writes of the transaction: the order, the stock updates, the payment.\<close>

definition writeOrder :: "Env \<Rightarrow> Store \<Rightarrow> Order \<Rightarrow> StockUpdate list \<Rightarrow> Store" where
  "writeOrder env s order stockUpdates =
     (let s1 = s\<lparr>Order_collection := Order_collection s @ [order]\<rparr>;
          s2 = s1\<lparr>Product_collection := applyStockUpdates stockUpdates (Product_collection s1)\<rparr>
      in s2\<lparr>Payment_collection := Payment_collection s2 @ [newPayment env order]\<rparr>)"

text \<open>
  The body of the \<^verbatim>\<open>try\<close> block: an error, or the order and the store as committed.
  Identifiers are plain strings (the cast to \<^verbatim>\<open>ObjectId\<close> is not modelled), and
  \<^verbatim>\<open>Order.create\<close> and \<^verbatim>\<open>Payment.create\<close> accept the documents they are given.
\<close>

definition CreateOrder_try ::
  "Env \<Rightarrow> Store \<Rightarrow> Payload \<Rightarrow> FileInterface option \<Rightarrow> JwtPayload \<Rightarrow> error + (Order \<times> Store)" where
  "CreateOrder_try env s payload file user =
     (case Payload.products payload of
        None \<Rightarrow> Inl (ExternalError ''SyntaxError'')
      | Some orderItems \<Rightarrow>
     (case findRequestedUser s user of
        None \<Rightarrow> Inl (AppError UNAUTHORIZED ''User not found'')
      | Some requestedUser \<Rightarrow>
     (let productIds = map OrderItem.product_id orderItems;
          requestedProducts = findRequestedProducts s productIds
      in if length requestedProducts \<noteq> length productIds
         then Inl (AppError BAD_REQUEST ''Product not found'')
         else
     (let order_id' = generateOrderId (order_uuid env);
          isPrescriptionRequired = list_ex Product.requires_prescription requestedProducts
      in case uploadPrescription env isPrescriptionRequired file order_id' of
           Inl e \<Rightarrow> Inl e
         | Inr prescription' \<Rightarrow>
     (case orderProducts_map orderItems requestedProducts (0, [], []) of
        Inl e \<Rightarrow> Inl e
      | Inr (subtotal', stockUpdates, orderProducts) \<Rightarrow>
     (let order = newOrder env payload requestedUser order_id' prescription' subtotal'
                   orderProducts
      in Inr (order, writeOrder env s order stockUpdates)))))))"

text \<open>
  \<^verbatim>\<open>catch (error) { await session.abortTransaction(); throw error; }\<close>: on an error the
  store is the one the call started from.
\<close>

definition CreateOrder ::
  "Env \<Rightarrow> Store \<Rightarrow> Payload \<Rightarrow> FileInterface option \<Rightarrow> JwtPayload \<Rightarrow> (error + Order) \<times> Store" where
  "CreateOrder env s payload file user =
     (case CreateOrder_try env s payload file user of
        Inl e \<Rightarrow> (Inl e, s)
      | Inr (order, s') \<Rightarrow> (Inr order, s'))"

subsection \<open>Order status transition\<close>

text \<open>
  Modelled from the spec: \<^verbatim>\<open>OrderConstants.OrderStatus\<close> (order.constant is not among
  the sources) lists the states the spec names: PLACED, CONFIRMED, SHIPPED, DELIVERED and
  CANCELLED.
\<close>

definition OrderConstants_OrderStatus :: "OrderStatus list" where
  "OrderConstants_OrderStatus = [PLACED, CONFIRMED, SHIPPED, DELIVERED, CANCELLED]"

text \<open>The table is indexed by the \<^emph>\<open>current\<close> status and lists the targets it refuses.\<close>

fun invalidTransitions :: "OrderStatus \<Rightarrow> OrderStatus list" where
  "invalidTransitions PLACED = []"
| "invalidTransitions CONFIRMED = []"
| "invalidTransitions SHIPPED = [PLACED, CONFIRMED]"
| "invalidTransitions DELIVERED = [PLACED, CONFIRMED, SHIPPED, CANCELLED]"
| "invalidTransitions CANCELLED = [DELIVERED, SHIPPED]"

fun OrderStatus_name :: "OrderStatus \<Rightarrow> string" where
  "OrderStatus_name PLACED = ''PLACED''"
| "OrderStatus_name CONFIRMED = ''CONFIRMED''"
| "OrderStatus_name SHIPPED = ''SHIPPED''"
| "OrderStatus_name DELIVERED = ''DELIVERED''"
| "OrderStatus_name CANCELLED = ''CANCELLED''"

text \<open>The message of an invalid change; the arrow U+2192 is written as its UTF-8 bytes.\<close>

definition invalidStatusChange :: "OrderStatus \<Rightarrow> OrderStatus \<Rightarrow> string" where
  "invalidStatusChange currentStatus status' =
     ''Invalid status change \"'' @ OrderStatus_name currentStatus @ ''\" ''
       @ [CHR 0xE2, CHR 0x86, CHR 0x92] @ '' \"'' @ OrderStatus_name status' @ ''\"''"

text \<open>\<^verbatim>\<open>!order.prescription\<close>: an absent or empty string is falsy.\<close>

definition falsy :: "string option \<Rightarrow> bool" where
  "falsy v = (v = None \<or> v = Some [])"

text \<open>
  The restock of a cancelled paid order:
  \<^verbatim>\<open>Product.updateOne({_id: product.product_id}, {$inc: {stock: product.quantity}})\<close>
  for every line of the order.
\<close>

definition restock :: "OrderItems list \<Rightarrow> Product list \<Rightarrow> Product list" where
  "restock lines ps =
     foldl (\<lambda>docs line. updateOne (\<lambda>p. Product.oid p = OrderItems.product_id line)
        (\<lambda>p. p\<lparr>Product.stock := Product.stock p + OrderItems.quantity line\<rparr>) docs)
       ps lines"

text \<open>
  The \<^verbatim>\<open>switch (status)\<close>: an error, or the order as changed in memory and the store
  after the writes of the branch. \<open>Order.products\<close> is a list, so the tests
  \<^verbatim>\<open>Array.isArray(order.products)\<close> hold.
\<close>

fun switchStatus :: "Store \<Rightarrow> Order \<Rightarrow> OrderStatus \<Rightarrow> error + (Order \<times> Store)" where
  "switchStatus s order CONFIRMED =
     (if list_ex OrderItems.requires_prescription (Order.products order)
         \<and> falsy (Order.prescription order)
      then Inl (AppError BAD_REQUEST ''Cannot confirm order without prescription'')
      else Inr (order, s))"
| "switchStatus s order SHIPPED =
     (if Order.payment_method order \<noteq> Some ''cash_on_delivery''
         \<and> Order.payment_status order \<noteq> ''PAID''
      then Inl (AppError BAD_REQUEST ''Cannot ship an order with incomplete payment'')
      else Inr (order, s))"
| "switchStatus s order DELIVERED =
     (if Order.payment_method order = Some ''cash_on_delivery''
      then Inr (order\<lparr>Order.payment_status := ''PAID''\<rparr>, s)
      else Inr (order, s))"
| "switchStatus s order CANCELLED =
     (if Order.payment_status order = ''PAID'' then
        (let order' = order\<lparr>Order.payment_status := ''CANCELLED''\<rparr>;
             s1 = s\<lparr>Payment_collection :=
                     updateOne (\<lambda>p. Payment.order_id p = Order.oid order')
                       (\<lambda>p. p\<lparr>Payment.payment_status := ''CANCELLED'',
                               Payment.payment_gateway_data := None\<rparr>)
                       (Payment_collection s)\<rparr>;
             s2 = s1\<lparr>Product_collection :=
                     restock (Order.products order') (Product_collection s1)\<rparr>
         in Inr (order', s2))
      else Inr (order, s))"
| "switchStatus s order PLACED = Inr (order, s)"

text \<open>\<^verbatim>\<open>order.save()\<close> writes the document back under its \<^verbatim>\<open>_id\<close>.\<close>

definition save :: "Order \<Rightarrow> Store \<Rightarrow> Store" where
  "save order s =
     s\<lparr>Order_collection :=
         updateOne (\<lambda>d. Order.oid d = Order.oid order) (\<lambda>d. order) (Order_collection s)\<rparr>"

definition UpdateOrderStatus_try :: "Store \<Rightarrow> string \<Rightarrow> OrderStatus \<Rightarrow> error + (Order \<times> Store)" where
  "UpdateOrderStatus_try s ident status' =
     (case find (\<lambda>d. Order.oid d = ident) (Order_collection s) of
        None \<Rightarrow> Inl (AppError NOT_FOUND ''Order not found'')
      | Some order \<Rightarrow>
          if status' \<notin> set OrderConstants_OrderStatus
          then Inl (AppError BAD_REQUEST ''Invalid order status'')
          else
            (let currentStatus = Order.order_status order
             in if status' \<in> set (invalidTransitions currentStatus)
                then Inl (AppError BAD_REQUEST (invalidStatusChange currentStatus status'))
                else
                  (case switchStatus s order status' of
                     Inl e \<Rightarrow> Inl e
                   | Inr (order1, s1) \<Rightarrow>
                       (let updatedOrder = order1\<lparr>Order.order_status := status'\<rparr>
                        in Inr (updatedOrder, save updatedOrder s1)))))"

definition UpdateOrderStatus :: "Store \<Rightarrow> string \<Rightarrow> OrderStatus \<Rightarrow> (error + Order) \<times> Store" where
  "UpdateOrderStatus s ident status' =
     (case UpdateOrderStatus_try s ident status' of
        Inl e \<Rightarrow> (Inl e, s)
      | Inr (order, s') \<Rightarrow> (Inr order, s'))"

subsection \<open>The stock flag\<close>

text \<open>
  The invariant the data model states for a product, in its words:
  \<^verbatim>\<open>in_stock == (stock > 0)\<close>.
\<close>

definition in_stock_invariant :: "Product \<Rightarrow> bool" where
  "in_stock_invariant p = (Product.in_stock p = (Product.stock p > 0))"

subsection \<open>A small pharmacy\<close>

text \<open>Concrete documents and requests, on which the theorems below are instantiated.\<close>

definition alice :: User where
  "alice = \<lparr>User.oid = ''u1'', User.email = ''alice@example.com'', User.status = ''ACTIVE'',
     User.is_deleted = False\<rparr>"

definition alice_jwt :: JwtPayload where
  "alice_jwt = \<lparr>JwtPayload.oid = ''u1'', JwtPayload.email = ''alice@example.com'',
     JwtPayload.role = ''CUSTOMER''\<rparr>"

definition paracetamol :: Product where
  "paracetamol = \<lparr>Product.oid = ''p1'', Product.name = ''Paracetamol'', Product.price = 100,
     Product.dosage = Some ''500mg'', Product.discount = 20,
     Product.discount_type = Some PERCENTAGE, Product.stock = 20, Product.in_stock = True,
     Product.requires_prescription = False, Product.is_deleted = False\<rparr>"

definition amoxicillin :: Product where
  "amoxicillin = \<lparr>Product.oid = ''p2'', Product.name = ''Amoxicillin'', Product.price = 250,
     Product.dosage = None, Product.discount = 0,
     Product.discount_type = Some FLAT, Product.stock = 2, Product.in_stock = True,
     Product.requires_prescription = True, Product.is_deleted = False\<rparr>"

definition pharmacy :: Store where
  "pharmacy = \<lparr>User_collection = [alice], Product_collection = [paracetamol, amoxicillin],
     Order_collection = [], Payment_collection = []\<rparr>"

definition scan :: FileInterface where
  "scan = \<lparr>fieldname = ''file'', originalname = ''rx.png'', encoding = ''7bit'',
     mimetype = ''image/png'', size = 3, buffer = ''PNG'', destination = [], filename = [],
     path = []\<rparr>"

definition env0 :: Env where
  "env0 = \<lparr>order_uuid = ''3f2a9c1e-7b4d-4e8a-9c0f-1a2b3c4d5e6f'',
     transaction_uuid = ''0b1c2d3e-4f5a-4b6c-8d7e-9f0a1b2c3d4e'',
     new_order_oid = ''o1'', new_payment_oid = ''pay1'',
     default_order_status = PLACED, default_order_payment_status = ''PENDING'',
     default_payment_status = ''PENDING'',
     uploadToCloudinary = (\<lambda>f public_id folder. Inr (''https://cdn/'' @ folder @ ''/'' @ public_id))\<rparr>"

definition request :: "OrderItem list \<Rightarrow> string \<Rightarrow> Payload" where
  "request items method =
     \<lparr>Payload.products = Some items, Payload.customer_name = Some ''Alice'',
      Payload.customer_email = Some ''alice@example.com'', Payload.customer_phone = None,
      Payload.address = Some ''1 Main Road'', Payload.city = Some ''Dhaka'',
      Payload.postal_code = None, Payload.notes = None, Payload.payment_method = Some method\<rparr>"

definition tablets :: Payload where
  "tablets = request [\<lparr>OrderItem.product_id = ''p1'', OrderItem.quantity = 15\<rparr>]
     ''cash_on_delivery''"

definition antibiotics :: Payload where
  "antibiotics = request [\<lparr>OrderItem.product_id = ''p2'', OrderItem.quantity = 2\<rparr>]
     ''online''"

definition too_many :: Payload where
  "too_many = request [\<lparr>OrderItem.product_id = ''p1'', OrderItem.quantity = 21\<rparr>]
     ''cash_on_delivery''"

definition unknown_product :: Payload where
  "unknown_product = request [\<lparr>OrderItem.product_id = ''p9'', OrderItem.quantity = 1\<rparr>]
     ''cash_on_delivery''"

text \<open>The order and the store after \<open>tablets\<close> has been ordered from \<open>pharmacy\<close>.\<close>

definition tablets_order :: Order where
  "tablets_order =
     \<lparr>Order.oid = ''o1'', Order.order_id = ''3F2A9C'', Order.customer_id = ''u1'',
      Order.products =
        [\<lparr>OrderItems.product_id = ''p1'', OrderItems.name = ''Paracetamol'',
          OrderItems.price = 100, OrderItems.dosage = Some ''500mg'', OrderItems.discount = 20,
          OrderItems.discount_type = Some PERCENTAGE, OrderItems.quantity = 15,
          OrderItems.requires_prescription = False\<rparr>],
      Order.customer_name = Some ''Alice'', Order.customer_email = Some ''alice@example.com'',
      Order.customer_phone = None, Order.address = Some ''1 Main Road'',
      Order.city = Some ''Dhaka'', Order.postal_code = None, Order.notes = None,
      Order.payment_method = Some ''cash_on_delivery'', Order.prescription = None,
      Order.subtotal = 1200, Order.delivery_charge = 0, Order.grand_total = 1200,
      Order.transaction_id = ''TRX-0B1C2D3E4F'', Order.order_status = PLACED,
      Order.payment_status = ''PENDING''\<rparr>"

definition tablets_payment :: Payment where
  "tablets_payment =
     \<lparr>Payment.oid = ''pay1'', Payment.order_id = ''o1'', Payment.amount = 1200,
      Payment.transaction_id = ''TRX-0B1C2D3E4F'', Payment.payment_status = ''PENDING'',
      Payment.payment_gateway_data = None\<rparr>"

definition pharmacy_tablets :: Store where
  "pharmacy_tablets =
     \<lparr>User_collection = [alice],
      Product_collection =
        [paracetamol\<lparr>Product.stock := 5, Product.in_stock := True\<rparr>, amoxicillin],
      Order_collection = [tablets_order], Payment_collection = [tablets_payment]\<rparr>"

text \<open>The same for \<open>antibiotics\<close>, ordered with the prescription \<open>scan\<close>.\<close>

definition antibiotics_order :: Order where
  "antibiotics_order =
     \<lparr>Order.oid = ''o1'', Order.order_id = ''3F2A9C'', Order.customer_id = ''u1'',
      Order.products =
        [\<lparr>OrderItems.product_id = ''p2'', OrderItems.name = ''Amoxicillin'',
          OrderItems.price = 250, OrderItems.dosage = None, OrderItems.discount = 0,
          OrderItems.discount_type = Some FLAT, OrderItems.quantity = 2,
          OrderItems.requires_prescription = True\<rparr>],
      Order.customer_name = Some ''Alice'', Order.customer_email = Some ''alice@example.com'',
      Order.customer_phone = None, Order.address = Some ''1 Main Road'',
      Order.city = Some ''Dhaka'', Order.postal_code = None, Order.notes = None,
      Order.payment_method = Some ''online'',
      Order.prescription = Some ''https://cdn/medimart/prescriptions/3F2A9C'',
      Order.subtotal = 500, Order.delivery_charge = 50, Order.grand_total = 550,
      Order.transaction_id = ''TRX-0B1C2D3E4F'', Order.order_status = PLACED,
      Order.payment_status = ''PENDING''\<rparr>"

definition antibiotics_payment :: Payment where
  "antibiotics_payment =
     \<lparr>Payment.oid = ''pay1'', Payment.order_id = ''o1'', Payment.amount = 550,
      Payment.transaction_id = ''TRX-0B1C2D3E4F'', Payment.payment_status = ''PENDING'',
      Payment.payment_gateway_data = None\<rparr>"

definition pharmacy_antibiotics :: Store where
  "pharmacy_antibiotics =
     \<lparr>User_collection = [alice],
      Product_collection =
        [paracetamol, amoxicillin\<lparr>Product.stock := 0, Product.in_stock := False\<rparr>],
      Order_collection = [antibiotics_order], Payment_collection = [antibiotics_payment]\<rparr>"

text \<open>
  The store once the payment of \<open>antibiotics_order\<close> has been taken and recorded
  by the payment module.
\<close>

definition antibiotics_paid :: Order where
  "antibiotics_paid = antibiotics_order\<lparr>Order.payment_status := ''PAID''\<rparr>"

definition pharmacy_paid :: Store where
  "pharmacy_paid =
     pharmacy_antibiotics\<lparr>Order_collection := [antibiotics_paid],
       Payment_collection := [antibiotics_payment\<lparr>Payment.payment_status := ''PAID'',
         Payment.payment_gateway_data := Some ''val_id=1''\<rparr>]\<rparr>"

subsection \<open>Discounted price\<close>

text \<open>
  C2. For every price, discount and discount type, \<open>calculateDiscountedPrice\<close> returns
  \<open>price - price * discount / 100\<close> for \<open>PERCENTAGE\<close> and \<open>price - discount\<close> for
  \<open>FLAT\<close>, clamped below at 0; the result is never negative, whatever the discount and
  its type. Price 100 with a 20 percent discount gives 80; price 100 with a flat discount
  of 150 gives 0.
\<close>

theorem calculateDiscountedPrice_clamped:
  "calculateDiscountedPrice p d (Some PERCENTAGE) = max 0 (p - p * d / 100)
   \<and> calculateDiscountedPrice p d (Some FLAT) = max 0 (p - d)
   \<and> 0 \<le> calculateDiscountedPrice p d t
   \<and> calculateDiscountedPrice 100 20 (Some PERCENTAGE) = 80
   \<and> calculateDiscountedPrice 100 150 (Some FLAT) = 0"
  by (simp add: calculateDiscountedPrice_def Let_def max_def)

subsection \<open>What a successful creation went through\<close>

lemma CreateOrder_try_InrE:
  assumes "CreateOrder_try env s payload file user = Inr (order, s')"
  obtains orderItems requestedUser prescription' subtotal' stockUpdates orderProducts where
    "Payload.products payload = Some orderItems"
    "findRequestedUser s user = Some requestedUser"
    "length (findRequestedProducts s (map OrderItem.product_id orderItems)) = length orderItems"
    "uploadPrescription env
       (list_ex Product.requires_prescription
          (findRequestedProducts s (map OrderItem.product_id orderItems)))
       file (generateOrderId (order_uuid env)) = Inr prescription'"
    "orderProducts_map orderItems (findRequestedProducts s (map OrderItem.product_id orderItems))
       (0, [], []) = Inr (subtotal', stockUpdates, orderProducts)"
    "order = newOrder env payload requestedUser (generateOrderId (order_uuid env)) prescription'
       subtotal' orderProducts"
    "s' = writeOrder env s order stockUpdates"
  using assms unfolding CreateOrder_try_def Let_def
  by (auto split: option.splits sum.splits if_splits prod.splits)

lemma CreateOrder_Inr_try:
  assumes "CreateOrder env s payload file user = (Inr order, s')"
  shows "CreateOrder_try env s payload file user = Inr (order, s')"
  using assms unfolding CreateOrder_def by (auto split: sum.splits prod.splits)

lemma CreateOrder_tablets:
  "CreateOrder env0 pharmacy tablets None alice_jwt = (Inr tablets_order, pharmacy_tablets)"
  by code_simp

lemma CreateOrder_antibiotics:
  "CreateOrder env0 pharmacy antibiotics (Some scan) alice_jwt
     = (Inr antibiotics_order, pharmacy_antibiotics)"
  by code_simp

subsection \<open>Delivery charge and grand total\<close>

text \<open>
  C1. For every order created by \<open>CreateOrder\<close>, the stored delivery charge is 0 when the
  computed subtotal is strictly greater than 1000 and 50 otherwise, and the stored grand
  total is the subtotal plus the delivery charge. The order is the document appended to the
  order collection, and its subtotal is the one the loop over the requested products
  computed. (A subtotal of 1200 gives charge 0 and total 1200; one of 500 gives charge 50
  and total 550: see the witness.)
\<close>

theorem CreateOrder_totals:
  assumes "CreateOrder env s payload file user = (Inr order, s')"
  shows "Order.delivery_charge order = (if Order.subtotal order > 1000 then 0 else 50)
       \<and> Order.grand_total order = Order.subtotal order + Order.delivery_charge order
       \<and> Order_collection s' = Order_collection s @ [order]
       \<and> (\<exists>orderItems stockUpdates orderProducts.
             Payload.products payload = Some orderItems
           \<and> orderProducts_map orderItems
                (findRequestedProducts s (map OrderItem.product_id orderItems)) (0, [], [])
              = Inr (Order.subtotal order, stockUpdates, orderProducts))"
proof -
  from assms have "CreateOrder_try env s payload file user = Inr (order, s')"
    by (rule CreateOrder_Inr_try)
  then show ?thesis
  proof (rule CreateOrder_try_InrE)
    fix orderItems requestedUser prescription' subtotal' stockUpdates orderProducts
    assume items: "Payload.products payload = Some orderItems"
      and loop: "orderProducts_map orderItems
         (findRequestedProducts s (map OrderItem.product_id orderItems)) (0, [], [])
         = Inr (subtotal', stockUpdates, orderProducts)"
      and order: "order = newOrder env payload requestedUser (generateOrderId (order_uuid env))
         prescription' subtotal' orderProducts"
      and store: "s' = writeOrder env s order stockUpdates"
    have sub: "Order.subtotal order = subtotal'"
      by (simp add: order newOrder_def Let_def)
    have "Order.delivery_charge order = (if Order.subtotal order > 1000 then 0 else 50)"
      by (simp add: order newOrder_def Let_def)
    moreover have "Order.grand_total order = Order.subtotal order + Order.delivery_charge order"
      by (simp add: order newOrder_def Let_def)
    moreover have "Order_collection s' = Order_collection s @ [order]"
      by (simp add: store writeOrder_def Let_def)
    ultimately show ?thesis using items loop sub by auto
  qed
qed

theorem CreateOrder_totals_witness:
  "CreateOrder env0 pharmacy tablets None alice_jwt = (Inr tablets_order, pharmacy_tablets)
   \<and> Order.subtotal tablets_order = 1200
   \<and> Order.delivery_charge tablets_order = 0
   \<and> Order.grand_total tablets_order = 1200
   \<and> CreateOrder env0 pharmacy antibiotics (Some scan) alice_jwt
       = (Inr antibiotics_order, pharmacy_antibiotics)
   \<and> Order.subtotal antibiotics_order = 500
   \<and> Order.delivery_charge antibiotics_order = 50
   \<and> Order.grand_total antibiotics_order = 550"
proof -
  have s1: "Order.subtotal tablets_order = 1200"
    by (simp add: tablets_order_def)
  have s2: "Order.subtotal antibiotics_order = 500"
    by (simp add: antibiotics_order_def)
  from CreateOrder_totals [OF CreateOrder_tablets] s1
  have t1: "Order.delivery_charge tablets_order = 0 \<and> Order.grand_total tablets_order = 1200"
    by simp
  from CreateOrder_totals [OF CreateOrder_antibiotics] s2
  have t2: "Order.delivery_charge antibiotics_order = 50
      \<and> Order.grand_total antibiotics_order = 550"
    by simp
  from t1 t2 s1 s2 CreateOrder_tablets CreateOrder_antibiotics show ?thesis
    by simp
qed

subsection \<open>Status transitions: shared facts\<close>

lemma find_oid:
  "find (\<lambda>d. Order.oid d = ident) ds = Some order \<Longrightarrow> Order.oid order = ident"
  by (induction ds) (auto split: if_splits)

lemma find_updateOne:
  assumes "find P ds = Some d" "P (upd d)"
  shows "find P (updateOne P upd ds) = Some (upd d)"
  using assms by (induction ds) (auto split: if_splits)

lemma UpdateOrderStatus_found:
  assumes "find (\<lambda>d. Order.oid d = ident) (Order_collection s) = Some order"
  shows "UpdateOrderStatus s ident status' =
     (if status' \<in> set (invalidTransitions (Order.order_status order))
      then (Inl (AppError BAD_REQUEST (invalidStatusChange (Order.order_status order) status')), s)
      else (case switchStatus s order status' of
              Inl e \<Rightarrow> (Inl e, s)
            | Inr (order1, s1) \<Rightarrow>
                (Inr (order1\<lparr>Order.order_status := status'\<rparr>),
                 save (order1\<lparr>Order.order_status := status'\<rparr>) s1)))"
proof -
  have "status' \<in> set OrderConstants_OrderStatus"
    by (cases status') (simp_all add: OrderConstants_OrderStatus_def)
  then show ?thesis
    using assms
    by (simp add: UpdateOrderStatus_def UpdateOrderStatus_try_def Let_def
        split: sum.splits prod.splits)
qed

lemma save_collections:
  "User_collection (save order s) = User_collection s"
  "Product_collection (save order s) = Product_collection s"
  "Payment_collection (save order s) = Payment_collection s"
  by (simp_all add: save_def)

lemma find_save:
  assumes "find (\<lambda>d. Order.oid d = ident) (Order_collection s) = Some order"
    and "Order.oid order' = ident"
  shows "find (\<lambda>d. Order.oid d = ident) (Order_collection (save order' s)) = Some order'"
  using assms find_updateOne [of "\<lambda>d. Order.oid d = ident" "Order_collection s" order "\<lambda>d. order'"]
  by (simp add: save_def)

lemma find_tablets_order:
  "find (\<lambda>d. Order.oid d = ''o1'') (Order_collection pharmacy_tablets) = Some tablets_order"
  by code_simp

lemma find_antibiotics_order:
  "find (\<lambda>d. Order.oid d = ''o1'') (Order_collection pharmacy_antibiotics)
     = Some antibiotics_order"
  by code_simp

lemma find_antibiotics_paid:
  "find (\<lambda>d. Order.oid d = ''o1'') (Order_collection pharmacy_paid) = Some antibiotics_paid"
  by code_simp

subsection \<open>Shipping from PLACED or CONFIRMED\<close>

text \<open>
  C4, as the claim states it, fails: an order that is PLACED (or CONFIRMED) and paid on
  delivery is shipped. The table \<open>invalidTransitions\<close> is indexed by the current status,
  so its row \<open>SHIPPED\<close> lists the targets refused to a shipped order.
\<close>

theorem UpdateOrderStatus_SHIPPED_counterexample:
  "Order_collection pharmacy_tablets = [tablets_order]
   \<and> Order.oid tablets_order = ''o1''
   \<and> Order.order_status tablets_order = PLACED
   \<and> UpdateOrderStatus pharmacy_tablets ''o1'' SHIPPED
       = (Inr (tablets_order\<lparr>Order.order_status := SHIPPED\<rparr>),
          pharmacy_tablets\<lparr>Order_collection :=
            [tablets_order\<lparr>Order.order_status := SHIPPED\<rparr>]\<rparr>)
   \<and> UpdateOrderStatus
         (pharmacy_tablets\<lparr>Order_collection :=
            [tablets_order\<lparr>Order.order_status := CONFIRMED\<rparr>]\<rparr>) ''o1'' SHIPPED
       = (Inr (tablets_order\<lparr>Order.order_status := SHIPPED\<rparr>),
          pharmacy_tablets\<lparr>Order_collection :=
            [tablets_order\<lparr>Order.order_status := SHIPPED\<rparr>]\<rparr>)"
  by code_simp

text \<open>
  C4, amended. For every order whose current status is PLACED or CONFIRMED,
  \<open>UpdateOrderStatus\<close> with target SHIPPED fails with BadRequest exactly when the payment
  method is not cash on delivery and the payment status is not PAID (the guard of the
  SHIPPED branch); otherwise it succeeds and stores the order as SHIPPED. What the table
  refuses is the way back: for an order that is SHIPPED, the targets PLACED and CONFIRMED
  fail with BadRequest and nothing is written.
\<close>

theorem UpdateOrderStatus_SHIPPED_guard:
  assumes "find (\<lambda>d. Order.oid d = ident) (Order_collection s) = Some order"
  shows "(Order.order_status order = PLACED \<or> Order.order_status order = CONFIRMED \<longrightarrow>
          UpdateOrderStatus s ident SHIPPED =
            (if Order.payment_method order \<noteq> Some ''cash_on_delivery''
                \<and> Order.payment_status order \<noteq> ''PAID''
             then (Inl (AppError BAD_REQUEST ''Cannot ship an order with incomplete payment''), s)
             else (Inr (order\<lparr>Order.order_status := SHIPPED\<rparr>),
                   save (order\<lparr>Order.order_status := SHIPPED\<rparr>) s)))
       \<and> (Order.order_status order = SHIPPED \<and> (target = PLACED \<or> target = CONFIRMED) \<longrightarrow>
          UpdateOrderStatus s ident target =
            (Inl (AppError BAD_REQUEST (invalidStatusChange SHIPPED target)), s))"
  by (auto simp: UpdateOrderStatus_found [OF assms])

theorem UpdateOrderStatus_SHIPPED_guard_witness:
  "UpdateOrderStatus pharmacy_tablets ''o1'' SHIPPED
     = (Inr (tablets_order\<lparr>Order.order_status := SHIPPED\<rparr>),
        save (tablets_order\<lparr>Order.order_status := SHIPPED\<rparr>) pharmacy_tablets)
   \<and> UpdateOrderStatus pharmacy_antibiotics ''o1'' SHIPPED
     = (Inl (AppError BAD_REQUEST ''Cannot ship an order with incomplete payment''),
        pharmacy_antibiotics)
   \<and> UpdateOrderStatus (save (tablets_order\<lparr>Order.order_status := SHIPPED\<rparr>) pharmacy_tablets)
        ''o1'' PLACED
     = (Inl (AppError BAD_REQUEST (invalidStatusChange SHIPPED PLACED)),
        save (tablets_order\<lparr>Order.order_status := SHIPPED\<rparr>) pharmacy_tablets)"
proof -
  have shipped: "find (\<lambda>d. Order.oid d = ''o1'')
      (Order_collection (save (tablets_order\<lparr>Order.order_status := SHIPPED\<rparr>) pharmacy_tablets))
      = Some (tablets_order\<lparr>Order.order_status := SHIPPED\<rparr>)"
    by (rule find_save [OF find_tablets_order]) (simp add: tablets_order_def)
  have "UpdateOrderStatus pharmacy_tablets ''o1'' SHIPPED
     = (Inr (tablets_order\<lparr>Order.order_status := SHIPPED\<rparr>),
        save (tablets_order\<lparr>Order.order_status := SHIPPED\<rparr>) pharmacy_tablets)"
    using UpdateOrderStatus_SHIPPED_guard [OF find_tablets_order]
    by (simp add: tablets_order_def)
  moreover have "UpdateOrderStatus pharmacy_antibiotics ''o1'' SHIPPED
     = (Inl (AppError BAD_REQUEST ''Cannot ship an order with incomplete payment''),
        pharmacy_antibiotics)"
    using UpdateOrderStatus_SHIPPED_guard [OF find_antibiotics_order]
    by (simp add: antibiotics_order_def)
  moreover have "UpdateOrderStatus
        (save (tablets_order\<lparr>Order.order_status := SHIPPED\<rparr>) pharmacy_tablets) ''o1'' PLACED
     = (Inl (AppError BAD_REQUEST (invalidStatusChange SHIPPED PLACED)),
        save (tablets_order\<lparr>Order.order_status := SHIPPED\<rparr>) pharmacy_tablets)"
    using UpdateOrderStatus_SHIPPED_guard [OF shipped, of PLACED]
    by simp
  ultimately show ?thesis by simp
qed

subsection \<open>Delivery of a cash-on-delivery order\<close>

text \<open>
  C9. For every order whose payment method is cash on delivery, a successful
  \<open>UpdateOrderStatus\<close> to DELIVERED marks the payment PAID: the order returned and
  stored has \<open>payment_status\<close> PAID (and \<open>order_status\<close> DELIVERED). The write is on
  the order document; the payment and product collections are as before.
\<close>

theorem UpdateOrderStatus_DELIVERED_cash_on_delivery:
  assumes "find (\<lambda>d. Order.oid d = ident) (Order_collection s) = Some order"
    and "Order.payment_method order = Some ''cash_on_delivery''"
    and "UpdateOrderStatus s ident DELIVERED = (Inr order', s')"
  shows "Order.payment_status order' = ''PAID''
       \<and> order' = order\<lparr>Order.payment_status := ''PAID'', Order.order_status := DELIVERED\<rparr>
       \<and> find (\<lambda>d. Order.oid d = ident) (Order_collection s') = Some order'
       \<and> Payment_collection s' = Payment_collection s
       \<and> Product_collection s' = Product_collection s"
proof -
  from assms(3) have "DELIVERED \<notin> set (invalidTransitions (Order.order_status order))"
    by (auto simp: UpdateOrderStatus_found [OF assms(1)] split: if_splits)
  with assms
  have o: "order' = order\<lparr>Order.payment_status := ''PAID'', Order.order_status := DELIVERED\<rparr>"
    and s: "s' = save order' s"
    by (auto simp: UpdateOrderStatus_found [OF assms(1)])
  have "Order.oid order' = ident"
    using find_oid [OF assms(1)] by (simp add: o)
  then have "find (\<lambda>d. Order.oid d = ident) (Order_collection s') = Some order'"
    unfolding s by (rule find_save [OF assms(1)])
  then show ?thesis
    by (simp add: s save_collections) (simp add: o)
qed

theorem UpdateOrderStatus_DELIVERED_cash_on_delivery_witness:
  "Order.payment_method tablets_order = Some ''cash_on_delivery''
   \<and> Order.payment_status tablets_order = ''PENDING''
   \<and> UpdateOrderStatus pharmacy_tablets ''o1'' DELIVERED
       = (Inr (tablets_order\<lparr>Order.payment_status := ''PAID'', Order.order_status := DELIVERED\<rparr>),
          pharmacy_tablets\<lparr>Order_collection :=
            [tablets_order\<lparr>Order.payment_status := ''PAID'',
               Order.order_status := DELIVERED\<rparr>]\<rparr>)
   \<and> Order.payment_status
        (tablets_order\<lparr>Order.payment_status := ''PAID'', Order.order_status := DELIVERED\<rparr>)
       = ''PAID''"
proof -
  have cod: "Order.payment_method tablets_order = Some ''cash_on_delivery''"
    by (simp add: tablets_order_def)
  have pending: "Order.payment_status tablets_order = ''PENDING''"
    by (simp add: tablets_order_def)
  have run: "UpdateOrderStatus pharmacy_tablets ''o1'' DELIVERED
       = (Inr (tablets_order\<lparr>Order.payment_status := ''PAID'', Order.order_status := DELIVERED\<rparr>),
          pharmacy_tablets\<lparr>Order_collection :=
            [tablets_order\<lparr>Order.payment_status := ''PAID'',
               Order.order_status := DELIVERED\<rparr>]\<rparr>)"
    by code_simp
  from UpdateOrderStatus_DELIVERED_cash_on_delivery [OF find_tablets_order cod run] cod pending run
  show ?thesis by simp
qed

subsection \<open>Cancellation of an order that is not paid\<close>

text \<open>
  C10. For every order whose payment status is not PAID, a successful
  \<open>UpdateOrderStatus\<close> with target CANCELLED changes only the \<open>order_status\<close> of the
  order: the store differs from the one before in that document alone, no payment is
  written and no stock is restored, so the units taken at creation stay taken.
\<close>

theorem UpdateOrderStatus_CANCELLED_unpaid:
  assumes "find (\<lambda>d. Order.oid d = ident) (Order_collection s) = Some order"
    and "Order.payment_status order \<noteq> ''PAID''"
    and "UpdateOrderStatus s ident CANCELLED = (Inr order', s')"
  shows "order' = order\<lparr>Order.order_status := CANCELLED\<rparr>
       \<and> s' = s\<lparr>Order_collection :=
                  updateOne (\<lambda>d. Order.oid d = ident) (\<lambda>d. order') (Order_collection s)\<rparr>
       \<and> Payment_collection s' = Payment_collection s
       \<and> Product_collection s' = Product_collection s"
proof -
  from assms(3) have "CANCELLED \<notin> set (invalidTransitions (Order.order_status order))"
    by (auto simp: UpdateOrderStatus_found [OF assms(1)] split: if_splits)
  with assms have o: "order' = order\<lparr>Order.order_status := CANCELLED\<rparr>"
    and s: "s' = save order' s"
    by (auto simp: UpdateOrderStatus_found [OF assms(1)])
  have "Order.oid order' = ident"
    using find_oid [OF assms(1)] by (simp add: o)
  then show ?thesis
    by (simp add: s save_def) (simp add: o)
qed

theorem UpdateOrderStatus_CANCELLED_unpaid_witness:
  "Order.payment_status tablets_order \<noteq> ''PAID''
   \<and> UpdateOrderStatus pharmacy_tablets ''o1'' CANCELLED
       = (Inr (tablets_order\<lparr>Order.order_status := CANCELLED\<rparr>),
          pharmacy_tablets\<lparr>Order_collection :=
            [tablets_order\<lparr>Order.order_status := CANCELLED\<rparr>]\<rparr>)
   \<and> map Product.stock (Product_collection pharmacy) = [20, 2]
   \<and> map Product.stock (Product_collection pharmacy_tablets) = [5, 2]
   \<and> map Product.stock (Product_collection
        (pharmacy_tablets\<lparr>Order_collection :=
            [tablets_order\<lparr>Order.order_status := CANCELLED\<rparr>]\<rparr>)) = [5, 2]"
proof -
  have unpaid: "Order.payment_status tablets_order \<noteq> ''PAID''"
    by (simp add: tablets_order_def)
  have run: "UpdateOrderStatus pharmacy_tablets ''o1'' CANCELLED
       = (Inr (tablets_order\<lparr>Order.order_status := CANCELLED\<rparr>),
          pharmacy_tablets\<lparr>Order_collection :=
            [tablets_order\<lparr>Order.order_status := CANCELLED\<rparr>]\<rparr>)"
    by code_simp
  have before: "map Product.stock (Product_collection pharmacy) = [20, 2]"
    by (simp add: pharmacy_def paracetamol_def amoxicillin_def)
  have after: "map Product.stock (Product_collection pharmacy_tablets) = [5, 2]"
    by (simp add: pharmacy_tablets_def paracetamol_def amoxicillin_def)
  from UpdateOrderStatus_CANCELLED_unpaid [OF find_tablets_order unpaid run]
  have "Product_collection
        (pharmacy_tablets\<lparr>Order_collection :=
            [tablets_order\<lparr>Order.order_status := CANCELLED\<rparr>]\<rparr>)
      = Product_collection pharmacy_tablets"
    by simp
  with unpaid run before after show ?thesis by simp
qed

subsection \<open>Updates of a collection whose identifiers are distinct\<close>

text \<open>The store keeps the \<^verbatim>\<open>_id\<close>s of a collection distinct.\<close>

lemma map_unmatched:
  assumes "\<forall>d\<in>set ds. key d \<noteq> k"
  shows "map (\<lambda>d. if key d = k then upd d else d) ds = ds"
  using assms by (induction ds) auto

lemma updateOne_distinct:
  assumes "distinct (map key ds)"
  shows "updateOne (\<lambda>d. key d = k) upd ds = map (\<lambda>d. if key d = k then upd d else d) ds"
  using assms
proof (induction ds)
  case Nil
  then show ?case by simp
next
  case (Cons d ds)
  show ?case
  proof (cases "key d = k")
    case True
    with Cons.prems have "\<forall>x\<in>set ds. key x \<noteq> k" by (auto simp: image_iff)
    then have "map (\<lambda>d. if key d = k then upd d else d) ds = ds"
      by (rule map_unmatched)
    with True show ?thesis by simp
  next
    case False
    with Cons show ?thesis by simp
  qed
qed

lemma filter_distinct_key:
  assumes "distinct (map key xs)" "x \<in> set xs"
  shows "filter (\<lambda>y. key y = key x) xs = [x]"
  using assms
proof (induction xs)
  case Nil
  then show ?case by simp
next
  case (Cons a xs)
  show ?case
  proof (cases "a = x")
    case True
    with Cons.prems have "\<forall>y\<in>set xs. key y \<noteq> key x" by (auto simp: image_iff)
    then have "filter (\<lambda>y. key y = key x) xs = []" by (simp add: filter_empty_conv)
    with True show ?thesis by simp
  next
    case False
    with Cons.prems have "x \<in> set xs" "key a \<noteq> key x" by auto
    with Cons show ?thesis by simp
  qed
qed

subsection \<open>Cancellation of a paid order\<close>

lemma restock_distinct:
  assumes "distinct (map Product.oid ps)"
  shows "restock lines ps =
     map (\<lambda>p. p\<lparr>Product.stock := Product.stock p
            + sum_list (map OrderItems.quantity
                (filter (\<lambda>line. OrderItems.product_id line = Product.oid p) lines))\<rparr>) ps"
  using assms
proof (induction lines arbitrary: ps)
  case Nil
  then show ?case by (simp add: restock_def map_idI)
next
  case (Cons line lines)
  let ?ps1 = "map (\<lambda>p. if Product.oid p = OrderItems.product_id line
      then p\<lparr>Product.stock := Product.stock p + OrderItems.quantity line\<rparr> else p) ps"
  have step: "restock (line # lines) ps = restock lines ?ps1"
    using Cons.prems
    by (simp add: restock_def updateOne_distinct [of Product.oid ps])
  have oids: "map Product.oid ?ps1 = map Product.oid ps"
    by (induction ps) auto
  have "distinct (map Product.oid ?ps1)"
    unfolding oids by (rule Cons.prems)
  then have "restock lines ?ps1 =
     map (\<lambda>p. p\<lparr>Product.stock := Product.stock p
            + sum_list (map OrderItems.quantity
                (filter (\<lambda>line. OrderItems.product_id line = Product.oid p) lines))\<rparr>) ?ps1"
    by (rule Cons.IH)
  with step show ?case by (simp add: o_def) 
qed

text \<open>
  C3. For every order whose payment status is PAID and whose current status permits
  cancellation (the row of the current status in \<open>invalidTransitions\<close> does not hold
  CANCELLED), \<open>UpdateOrderStatus\<close> with target CANCELLED succeeds; it adds to the stock
  of every product the quantities of the lines that reference it, which is exactly the
  quantity of its line when the lines reference distinct products (as the lines of a
  created order do); it sets the \<open>payment_status\<close> of the order to CANCELLED; and it
  sets the \<open>payment_status\<close> of the payment document of the order to CANCELLED.
\<close>

theorem UpdateOrderStatus_CANCELLED_paid:
  assumes found: "find (\<lambda>d. Order.oid d = ident) (Order_collection s) = Some order"
    and paid: "Order.payment_status order = ''PAID''"
    and permitted: "CANCELLED \<notin> set (invalidTransitions (Order.order_status order))"
    and ids: "distinct (map Product.oid (Product_collection s))"
  shows "\<exists>order' s'.
      UpdateOrderStatus s ident CANCELLED = (Inr order', s')
    \<and> order' = order\<lparr>Order.payment_status := ''CANCELLED'', Order.order_status := CANCELLED\<rparr>
    \<and> find (\<lambda>d. Order.oid d = ident) (Order_collection s') = Some order'
    \<and> Product_collection s' =
        map (\<lambda>p. p\<lparr>Product.stock := Product.stock p
               + sum_list (map OrderItems.quantity
                   (filter (\<lambda>line. OrderItems.product_id line = Product.oid p)
                      (Order.products order)))\<rparr>) (Product_collection s)
    \<and> (distinct (map OrderItems.product_id (Order.products order)) \<longrightarrow>
         (\<forall>line\<in>set (Order.products order). \<forall>p\<in>set (Product_collection s).
            Product.oid p = OrderItems.product_id line \<longrightarrow>
            p\<lparr>Product.stock := Product.stock p + OrderItems.quantity line\<rparr>
              \<in> set (Product_collection s')))
    \<and> Payment_collection s' =
        updateOne (\<lambda>p. Payment.order_id p = ident)
          (\<lambda>p. p\<lparr>Payment.payment_status := ''CANCELLED'', Payment.payment_gateway_data := None\<rparr>)
          (Payment_collection s)
    \<and> (\<forall>payment. find (\<lambda>p. Payment.order_id p = ident) (Payment_collection s) = Some payment \<longrightarrow>
          find (\<lambda>p. Payment.order_id p = ident) (Payment_collection s')
            = Some (payment\<lparr>Payment.payment_status := ''CANCELLED'',
                 Payment.payment_gateway_data := None\<rparr>))"
proof -
  let ?order' = "order\<lparr>Order.payment_status := ''CANCELLED'', Order.order_status := CANCELLED\<rparr>"
  let ?cancel = "\<lambda>p. p\<lparr>Payment.payment_status := ''CANCELLED'',
      Payment.payment_gateway_data := None\<rparr>"
  let ?payments = "updateOne (\<lambda>p. Payment.order_id p = ident) ?cancel (Payment_collection s)"
  let ?products = "restock (Order.products order) (Product_collection s)"
  let ?s' = "save ?order' (s\<lparr>Payment_collection := ?payments, Product_collection := ?products\<rparr>)"
  have oid: "Order.oid order = ident"
    using found by (rule find_oid)
  have run: "UpdateOrderStatus s ident CANCELLED = (Inr ?order', ?s')"
    using paid permitted oid by (simp add: UpdateOrderStatus_found [OF found] Let_def)
  have stored: "find (\<lambda>d. Order.oid d = ident) (Order_collection ?s') = Some ?order'"
    by (rule find_save) (simp_all add: found oid)
  have products: "Product_collection ?s' =
        map (\<lambda>p. p\<lparr>Product.stock := Product.stock p
               + sum_list (map OrderItems.quantity
                   (filter (\<lambda>line. OrderItems.product_id line = Product.oid p)
                      (Order.products order)))\<rparr>) (Product_collection s)"
    by (simp add: save_collections restock_distinct [OF ids])
  have exact: "p\<lparr>Product.stock := Product.stock p + OrderItems.quantity line\<rparr>
        \<in> set (Product_collection ?s')"
    if "distinct (map OrderItems.product_id (Order.products order))"
      and "line \<in> set (Order.products order)" and "p \<in> set (Product_collection s)"
      and "Product.oid p = OrderItems.product_id line" for line p
  proof -
    have "filter (\<lambda>l. OrderItems.product_id l = Product.oid p) (Order.products order) = [line]"
      using filter_distinct_key [OF that(1) that(2)] that(4) by simp
    then show ?thesis
      unfolding products using that(3) by (simp add: image_iff) (rule bexI [of _ p], simp_all)
  qed
  have payments: "Payment_collection ?s' = ?payments"
    by (simp add: save_collections)
  have payment: "find (\<lambda>p. Payment.order_id p = ident) (Payment_collection ?s')
      = Some (?cancel payment)"
    if "find (\<lambda>p. Payment.order_id p = ident) (Payment_collection s) = Some payment" for payment
  proof -
    have "Payment.order_id payment = ident"
      using that by (auto simp: find_Some_iff)
    then show ?thesis
      unfolding payments using that by (intro find_updateOne) simp_all
  qed
  show ?thesis
    using run stored products exact payments payment by blast
qed

theorem UpdateOrderStatus_CANCELLED_paid_witness:
  "Order.payment_status antibiotics_paid = ''PAID''
   \<and> Order.order_status antibiotics_paid = PLACED
   \<and> map Product.stock (Product_collection pharmacy_paid) = [20, 0]
   \<and> map OrderItems.quantity (Order.products antibiotics_paid) = [2]
   \<and> fst (UpdateOrderStatus pharmacy_paid ''o1'' CANCELLED)
       = Inr (antibiotics_paid\<lparr>Order.payment_status := ''CANCELLED'',
                Order.order_status := CANCELLED\<rparr>)
   \<and> map Product.stock
        (Product_collection (snd (UpdateOrderStatus pharmacy_paid ''o1'' CANCELLED))) = [20, 2]
   \<and> map Payment.payment_status
        (Payment_collection (snd (UpdateOrderStatus pharmacy_paid ''o1'' CANCELLED)))
       = [''CANCELLED'']"
proof -
  have paid: "Order.payment_status antibiotics_paid = ''PAID''"
    by (simp add: antibiotics_paid_def)
  have placed: "Order.order_status antibiotics_paid = PLACED"
    by (simp add: antibiotics_paid_def antibiotics_order_def)
  have permitted: "CANCELLED \<notin> set (invalidTransitions (Order.order_status antibiotics_paid))"
    by (simp add: placed)
  have products: "Product_collection pharmacy_paid
      = [paracetamol, amoxicillin\<lparr>Product.stock := 0, Product.in_stock := False\<rparr>]"
    by (simp add: pharmacy_paid_def pharmacy_antibiotics_def)
  have ids: "distinct (map Product.oid (Product_collection pharmacy_paid))"
    by (simp add: products paracetamol_def amoxicillin_def)
  have lines: "map OrderItems.quantity (Order.products antibiotics_paid) = [2]"
    by (simp add: antibiotics_paid_def antibiotics_order_def)
  have payments: "Payment_collection pharmacy_paid
      = [antibiotics_payment\<lparr>Payment.payment_status := ''PAID'',
           Payment.payment_gateway_data := Some ''val_id=1''\<rparr>]"
    by (simp add: pharmacy_paid_def)
  from UpdateOrderStatus_CANCELLED_paid [OF find_antibiotics_paid paid permitted ids]
  obtain order' s' where run: "UpdateOrderStatus pharmacy_paid ''o1'' CANCELLED = (Inr order', s')"
    and order': "order' = antibiotics_paid\<lparr>Order.payment_status := ''CANCELLED'',
        Order.order_status := CANCELLED\<rparr>"
    and restocked: "Product_collection s' =
        map (\<lambda>p. p\<lparr>Product.stock := Product.stock p
               + sum_list (map OrderItems.quantity
                   (filter (\<lambda>line. OrderItems.product_id line = Product.oid p)
                      (Order.products antibiotics_paid)))\<rparr>) (Product_collection pharmacy_paid)"
    and cancelled: "Payment_collection s' =
        updateOne (\<lambda>p. Payment.order_id p = ''o1'')
          (\<lambda>p. p\<lparr>Payment.payment_status := ''CANCELLED'', Payment.payment_gateway_data := None\<rparr>)
          (Payment_collection pharmacy_paid)"
    by blast
  have "map Product.stock (Product_collection s') = [20, 2]"
    unfolding restocked products
    by (simp add: antibiotics_paid_def antibiotics_order_def paracetamol_def amoxicillin_def)
  moreover have "map Payment.payment_status (Payment_collection s') = [''CANCELLED'']"
    unfolding cancelled payments by (simp add: antibiotics_payment_def)
  moreover have "map Product.stock (Product_collection pharmacy_paid) = [20, 0]"
    by (simp add: products paracetamol_def amoxicillin_def)
  ultimately show ?thesis
    using paid placed lines run order' by simp
qed

subsection \<open>The stock flag under the two writers of stock\<close>

text \<open>Order creation writes the flag together with the stock, and so keeps the invariant.\<close>

lemma updateOne_list_all:
  assumes "list_all Q ds" "\<And>d. Q (upd d)"
  shows "list_all Q (updateOne matches upd ds)"
  using assms by (induction ds) auto

lemma applyStockUpdates_in_stock_invariant:
  assumes "list_all in_stock_invariant ps"
  shows "list_all in_stock_invariant (applyStockUpdates stockUpdates ps)"
  unfolding applyStockUpdates_def using assms
proof (induction stockUpdates arbitrary: ps)
  case Nil
  then show ?case by simp
next
  case (Cons u us)
  have "list_all in_stock_invariant
      (updateOne (\<lambda>p. Product.oid p = productId u)
         (\<lambda>p. p\<lparr>Product.stock := newStock u, Product.in_stock := (newStock u > 0)\<rparr>) ps)"
    using Cons.prems by (rule updateOne_list_all) (simp add: in_stock_invariant_def)
  then show ?case by (simp add: Cons.IH)
qed

lemma CreateOrder_in_stock_invariant:
  assumes "list_all in_stock_invariant (Product_collection s)"
  shows "list_all in_stock_invariant
     (Product_collection (snd (CreateOrder env s payload file user)))"
proof (cases "CreateOrder_try env s payload file user")
  case (Inl e)
  with assms show ?thesis by (simp add: CreateOrder_def)
next
  case (Inr r)
  obtain order s' where r: "r = (order, s')" by (cases r)
  from Inr r have "CreateOrder_try env s payload file user = Inr (order, s')" by simp
  then obtain stockUpdates where "s' = writeOrder env s order stockUpdates"
    by (rule CreateOrder_try_InrE)
  then have "Product_collection s' = applyStockUpdates stockUpdates (Product_collection s)"
    by (simp add: writeOrder_def Let_def)
  with assms Inr r show ?thesis
    by (simp add: CreateOrder_def applyStockUpdates_in_stock_invariant)
qed

text \<open>
  C5. Every write of a product's stock is to keep \<open>in_stock = (stock > 0)\<close>. Order
  creation does (lemma \<open>CreateOrder_in_stock_invariant\<close>); the restock of a cancelled paid
  order does not. In \<open>pharmacy_paid\<close> every product satisfies the invariant, the last two
  units of amoxicillin having been ordered; cancelling that paid order puts the two units
  back and leaves \<open>in_stock\<close> false.
\<close>

theorem UpdateOrderStatus_CANCELLED_breaks_in_stock:
  "CreateOrder env0 pharmacy antibiotics (Some scan) alice_jwt
     = (Inr antibiotics_order, pharmacy_antibiotics)
   \<and> Product_collection pharmacy_paid = Product_collection pharmacy_antibiotics
   \<and> list_all in_stock_invariant (Product_collection pharmacy_paid)
   \<and> fst (UpdateOrderStatus pharmacy_paid ''o1'' CANCELLED)
       = Inr (antibiotics_paid\<lparr>Order.payment_status := ''CANCELLED'',
                Order.order_status := CANCELLED\<rparr>)
   \<and> Product_collection (snd (UpdateOrderStatus pharmacy_paid ''o1'' CANCELLED))
       = [paracetamol, amoxicillin\<lparr>Product.stock := 2, Product.in_stock := False\<rparr>]
   \<and> \<not> in_stock_invariant (amoxicillin\<lparr>Product.stock := 2, Product.in_stock := False\<rparr>)"
  by code_simp

subsection \<open>The requested products\<close>

lemma findRequestedProducts_oids:
  assumes "distinct (map Product.oid (Product_collection s))"
  shows "distinct (map Product.oid (findRequestedProducts s productIds))"
    and "set (map Product.oid (findRequestedProducts s productIds)) \<subseteq> set productIds"
    and "length (findRequestedProducts s productIds)
           = card (set (map Product.oid (findRequestedProducts s productIds)))"
proof -
  show d: "distinct (map Product.oid (findRequestedProducts s productIds))"
    unfolding findRequestedProducts_def using assms by (rule distinct_map_filter)
  show "set (map Product.oid (findRequestedProducts s productIds)) \<subseteq> set productIds"
    by (auto simp: findRequestedProducts_def)
  show "length (findRequestedProducts s productIds)
           = card (set (map Product.oid (findRequestedProducts s productIds)))"
    using distinct_card [OF d] by simp
qed

lemma findRequestedProducts_unresolved:
  assumes ids: "distinct (map Product.oid (Product_collection s))"
    and k: "k \<in> set productIds"
    and unresolved: "\<not> (\<exists>p\<in>set (Product_collection s).
           Product.oid p = k \<and> Product.is_deleted p = False)"
  shows "length (findRequestedProducts s productIds) \<noteq> length productIds"
proof -
  let ?found = "set (map Product.oid (findRequestedProducts s productIds))"
  have "k \<notin> ?found"
    using unresolved by (auto simp: findRequestedProducts_def)
  with k findRequestedProducts_oids(2) [OF ids, of productIds]
  have "?found \<subset> set productIds" by auto
  then have "card ?found < card (set productIds)"
    by (simp add: psubset_card_mono)
  also have "\<dots> \<le> length productIds" by (rule card_length)
  finally show ?thesis
    using findRequestedProducts_oids(3) [OF ids, of productIds] by simp
qed

lemma findRequestedProducts_complete:
  assumes ids: "distinct (map Product.oid (Product_collection s))"
    and len: "length (findRequestedProducts s productIds) = length productIds"
  shows "distinct productIds"
    and "set (map Product.oid (findRequestedProducts s productIds)) = set productIds"
proof -
  let ?found = "set (map Product.oid (findRequestedProducts s productIds))"
  have sub: "?found \<subseteq> set productIds"
    by (rule findRequestedProducts_oids(2) [OF ids])
  have "length productIds = card ?found"
    using findRequestedProducts_oids(3) [OF ids, of productIds] len by simp
  also have "\<dots> \<le> card (set productIds)"
    using sub by (simp add: card_mono)
  finally have le: "length productIds \<le> card (set productIds)" .
  with card_length [of productIds] have eq: "card (set productIds) = length productIds"
    by simp
  then show "distinct productIds" by (rule card_distinct)
  have "card (set productIds) \<le> card ?found"
    using findRequestedProducts_oids(3) [OF ids, of productIds] len eq by simp
  with sub show "?found = set productIds"
    by (simp add: card_seteq)
qed

lemma findRequestedProducts_all:
  assumes ids: "distinct (map Product.oid (Product_collection s))"
    and "distinct productIds"
    and resolved: "\<forall>k\<in>set productIds. \<exists>p\<in>set (Product_collection s).
           Product.oid p = k \<and> Product.is_deleted p = False"
  shows "length (findRequestedProducts s productIds) = length productIds"
proof -
  let ?found = "set (map Product.oid (findRequestedProducts s productIds))"
  have "set productIds \<subseteq> ?found"
    using resolved by (force simp: findRequestedProducts_def)
  with findRequestedProducts_oids(2) [OF ids, of productIds]
  have "?found = set productIds" by auto
  then show ?thesis
    using findRequestedProducts_oids(3) [OF ids, of productIds] distinct_card [OF assms(2)]
    by simp
qed

lemma same_oid_same_product:
  assumes "distinct (map Product.oid ps)" "p \<in> set ps" "q \<in> set ps"
    "Product.oid p = Product.oid q"
  shows "p = q"
  using assms by (meson distinct_map inj_onD)

lemma find_distinct_key:
  assumes "distinct (map key xs)" "x \<in> set xs"
  shows "find (\<lambda>y. key y = key x) xs = Some x"
  using assms by (induction xs) (auto simp: image_iff)

subsection \<open>The loop over the requested products\<close>

lemma orderProducts_map_error:
  assumes "orderProducts_map orderItems ps acc = Inl e"
  shows "e = AppError BAD_REQUEST ''Product out of stock''"
  using assms
  by (induction orderItems ps acc rule: orderProducts_map.induct)
    (auto simp: Let_def split: option.splits if_splits)

lemma orderProducts_map_out_of_stock:
  assumes "p \<in> set ps"
    and "find (\<lambda>i. OrderItem.product_id i = Product.oid p) orderItems = Some item"
    and "Product.stock p < OrderItem.quantity item"
  shows "orderProducts_map orderItems ps acc = Inl (AppError BAD_REQUEST ''Product out of stock'')"
  using assms
  by (induction orderItems ps acc rule: orderProducts_map.induct)
    (auto simp: Let_def split: option.splits)

lemma orderProducts_map_in_stock:
  assumes "\<forall>p\<in>set ps. \<exists>item.
      find (\<lambda>i. OrderItem.product_id i = Product.oid p) orderItems = Some item
      \<and> OrderItem.quantity item \<le> Product.stock p"
  shows "\<exists>r. orderProducts_map orderItems ps acc = Inr r"
  using assms
  by (induction orderItems ps acc rule: orderProducts_map.induct)
    (auto simp: Let_def split: option.splits)

lemma uploadPrescription_error:
  assumes "uploadPrescription env required file order_id' = Inl e"
    and "\<forall>f. file = Some f \<longrightarrow>
      (\<exists>url. uploadToCloudinary env f order_id' ''medimart/prescriptions'' = Inr url)"
  shows "e = AppError BAD_REQUEST ''Prescription required''"
  using assms
  by (auto simp: uploadPrescription_def split: if_splits option.splits sum.splits)

subsection \<open>A request for more than the stock\<close>

text \<open>
  C6. For every order request in which the quantity of some line exceeds the current stock
  of the product it references, \<open>CreateOrder\<close> fails and the store is the one before the
  call: no order, no payment, no stock write. The error is a BadRequest whenever the
  request gets as far as the products, that is when the user of the token resolves and the
  upload of an attached file, if one is needed, does not throw. (Identifiers of the product
  collection are distinct.)
\<close>

theorem CreateOrder_out_of_stock:
  assumes items: "Payload.products payload = Some orderItems"
    and line: "item \<in> set orderItems"
    and p: "p \<in> set (Product_collection s)"
    and ref: "Product.oid p = OrderItem.product_id item"
    and short: "Product.stock p < OrderItem.quantity item"
    and ids: "distinct (map Product.oid (Product_collection s))"
  shows "\<exists>e. CreateOrder env s payload file user = (Inl e, s)
     \<and> (findRequestedUser s user \<noteq> None
        \<and> (\<forall>f. file = Some f \<longrightarrow>
             (\<exists>url. uploadToCloudinary env f (generateOrderId (order_uuid env))
                ''medimart/prescriptions'' = Inr url))
        \<longrightarrow> (\<exists>m. e = AppError BAD_REQUEST m))"
proof -
  let ?productIds = "map OrderItem.product_id orderItems"
  let ?requested = "findRequestedProducts s ?productIds"
  let ?upload = "uploadPrescription env (list_ex Product.requires_prescription ?requested) file
      (generateOrderId (order_uuid env))"
  have fails: "orderProducts_map orderItems ?requested (0, [], [])
      = Inl (AppError BAD_REQUEST ''Product out of stock'')"
    if len: "length ?requested = length orderItems"
  proof -
    from len have len': "length ?requested = length ?productIds" by simp
    have d: "distinct ?productIds"
      and all: "set (map Product.oid ?requested) = set ?productIds"
      using findRequestedProducts_complete [OF ids len'] by blast+
    have "Product.oid p \<in> set ?productIds"
      using line ref by force
    with all obtain q where q: "q \<in> set ?requested" "Product.oid q = Product.oid p"
      by force
    then have "q \<in> set (Product_collection s)"
      by (simp add: findRequestedProducts_def)
    with q(2) have "q = p"
      using same_oid_same_product [OF ids _ p] by blast
    with q(1) have requested: "p \<in> set ?requested" by simp
    have "find (\<lambda>i. OrderItem.product_id i = OrderItem.product_id item) orderItems = Some item"
      using d line by (rule find_distinct_key)
    then have "find (\<lambda>i. OrderItem.product_id i = Product.oid p) orderItems = Some item"
      by (simp add: ref)
    with requested show ?thesis
      using short by (rule orderProducts_map_out_of_stock)
  qed
  consider (user) "findRequestedUser s user = None"
    | (products) u where "findRequestedUser s user = Some u"
        "length ?requested \<noteq> length orderItems"
    | (upload) u e where "findRequestedUser s user = Some u"
        "length ?requested = length orderItems" "?upload = Inl e"
    | (loop) u rx where "findRequestedUser s user = Some u"
        "length ?requested = length orderItems" "?upload = Inr rx"
    by (cases "findRequestedUser s user"; cases ?upload) auto
  then show ?thesis
  proof cases
    case user
    then show ?thesis
      by (simp add: CreateOrder_def CreateOrder_try_def items)
  next
    case products
    then show ?thesis
      by (simp add: CreateOrder_def CreateOrder_try_def items Let_def)
  next
    case upload
    have "CreateOrder env s payload file user = (Inl e, s)"
      using upload by (simp add: CreateOrder_def CreateOrder_try_def items Let_def)
    moreover have "e = AppError BAD_REQUEST ''Prescription required''"
      if "\<forall>f. file = Some f \<longrightarrow>
             (\<exists>url. uploadToCloudinary env f (generateOrderId (order_uuid env))
                ''medimart/prescriptions'' = Inr url)"
      using upload(3) that by (rule uploadPrescription_error)
    ultimately show ?thesis by blast
  next
    case loop
    then show ?thesis
      using fails [OF loop(2)]
      by (simp add: CreateOrder_def CreateOrder_try_def items Let_def)
  qed
qed

theorem CreateOrder_out_of_stock_witness:
  "Payload.products too_many
     = Some [\<lparr>OrderItem.product_id = ''p1'', OrderItem.quantity = 21\<rparr>]
   \<and> Product.oid paracetamol = ''p1''
   \<and> Product.stock paracetamol = 20
   \<and> findRequestedUser pharmacy alice_jwt = Some alice
   \<and> CreateOrder env0 pharmacy too_many None alice_jwt
       = (Inl (AppError BAD_REQUEST ''Product out of stock''), pharmacy)"
proof -
  let ?item = "\<lparr>OrderItem.product_id = ''p1'', OrderItem.quantity = 21\<rparr>"
  have items: "Payload.products too_many = Some [?item]"
    by (simp add: too_many_def request_def)
  have line: "?item \<in> set [?item]" by simp
  have p: "paracetamol \<in> set (Product_collection pharmacy)"
    by (simp add: pharmacy_def)
  have ref: "Product.oid paracetamol = OrderItem.product_id ?item"
    by (simp add: paracetamol_def)
  have short: "Product.stock paracetamol < OrderItem.quantity ?item"
    by (simp add: paracetamol_def)
  have ids: "distinct (map Product.oid (Product_collection pharmacy))"
    by (simp add: pharmacy_def paracetamol_def amoxicillin_def)
  have user: "findRequestedUser pharmacy alice_jwt = Some alice"
    by (simp add: findRequestedUser_def pharmacy_def alice_def alice_jwt_def)
  have run: "CreateOrder env0 pharmacy too_many None alice_jwt
       = (Inl (AppError BAD_REQUEST ''Product out of stock''), pharmacy)"
    by code_simp
  from CreateOrder_out_of_stock [OF items line p ref short ids, of env0 None alice_jwt]
  obtain e where "CreateOrder env0 pharmacy too_many None alice_jwt = (Inl e, pharmacy)"
    and "\<exists>m. e = AppError BAD_REQUEST m"
    using user by auto
  with items ref user run show ?thesis
    by (simp add: paracetamol_def)
qed

subsection \<open>The prescription gate\<close>

text \<open>
  C7. For every order request (of a user that resolves) that references a product which is
  not deleted and requires a prescription: without a file, \<open>CreateOrder\<close> fails with
  BadRequest and writes nothing; with a file, the other preconditions holding (the upload
  returns a URL, the lines reference distinct products, and each of them resolves to a
  product that is not deleted and has the stock), it succeeds, and the order it stores
  holds as \<open>prescription\<close> the URL returned by the upload made under the order id
  generated beforehand, which is the \<open>order_id\<close> of the order.
\<close>

theorem CreateOrder_prescription_gate:
  assumes items: "Payload.products payload = Some orderItems"
    and user: "findRequestedUser s user = Some requestedUser"
    and line: "item \<in> set orderItems"
    and p: "p \<in> set (Product_collection s)"
    and ref: "Product.oid p = OrderItem.product_id item"
    and live: "Product.is_deleted p = False"
    and rx: "Product.requires_prescription p"
  shows "(file = None \<longrightarrow>
           CreateOrder env s payload file user =
             (Inl (AppError BAD_REQUEST
                (if length (findRequestedProducts s (map OrderItem.product_id orderItems))
                      \<noteq> length orderItems
                 then ''Product not found'' else ''Prescription required'')), s))
       \<and> (\<forall>f url. file = Some f
             \<and> uploadToCloudinary env f (generateOrderId (order_uuid env))
                 ''medimart/prescriptions'' = Inr url
             \<and> distinct (map Product.oid (Product_collection s))
             \<and> distinct (map OrderItem.product_id orderItems)
             \<and> (\<forall>i\<in>set orderItems. \<exists>q\<in>set (Product_collection s).
                   Product.oid q = OrderItem.product_id i \<and> Product.is_deleted q = False
                   \<and> OrderItem.quantity i \<le> Product.stock q)
           \<longrightarrow> (\<exists>order s'. CreateOrder env s payload file user = (Inr order, s')
                 \<and> Order.prescription order = Some url
                 \<and> Order.order_id order = generateOrderId (order_uuid env)
                 \<and> Order_collection s' = Order_collection s @ [order]))"
proof -
  let ?productIds = "map OrderItem.product_id orderItems"
  let ?requested = "findRequestedProducts s ?productIds"
  have "p \<in> set ?requested"
    using line p ref live by (force simp: findRequestedProducts_def)
  then have required: "list_ex Product.requires_prescription ?requested"
    using rx by (auto simp: list_ex_iff)
  have none: "CreateOrder env s payload file user =
             (Inl (AppError BAD_REQUEST
                (if length ?requested \<noteq> length orderItems
                 then ''Product not found'' else ''Prescription required'')), s)"
    if "file = None"
    using that required
    by (simp add: CreateOrder_def CreateOrder_try_def items user Let_def uploadPrescription_def)
  have some: "\<exists>order s'. CreateOrder env s payload file user = (Inr order, s')
                 \<and> Order.prescription order = Some url
                 \<and> Order.order_id order = generateOrderId (order_uuid env)
                 \<and> Order_collection s' = Order_collection s @ [order]"
    if attached: "file = Some f"
      and url: "uploadToCloudinary env f (generateOrderId (order_uuid env))
                 ''medimart/prescriptions'' = Inr url"
      and ids: "distinct (map Product.oid (Product_collection s))"
      and lines: "distinct ?productIds"
      and stock: "\<forall>i\<in>set orderItems. \<exists>q\<in>set (Product_collection s).
                   Product.oid q = OrderItem.product_id i \<and> Product.is_deleted q = False
                   \<and> OrderItem.quantity i \<le> Product.stock q"
    for f url
  proof -
    have "\<forall>k\<in>set ?productIds. \<exists>q\<in>set (Product_collection s).
           Product.oid q = k \<and> Product.is_deleted q = False"
      using stock by auto
    with ids lines have len: "length ?requested = length ?productIds"
      by (rule findRequestedProducts_all)
    have upload: "uploadPrescription env (list_ex Product.requires_prescription ?requested) file
        (generateOrderId (order_uuid env)) = Inr (Some url)"
      using required attached url by (simp add: uploadPrescription_def)
    have "\<exists>i. find (\<lambda>i. OrderItem.product_id i = Product.oid q) orderItems = Some i
        \<and> OrderItem.quantity i \<le> Product.stock q"
      if q: "q \<in> set ?requested" for q
    proof -
      from q have q_in: "q \<in> set (Product_collection s)"
        and "Product.oid q \<in> set ?productIds"
        by (simp_all add: findRequestedProducts_def)
      then obtain i where i: "i \<in> set orderItems" "OrderItem.product_id i = Product.oid q"
        by auto
      have found: "find (\<lambda>j. OrderItem.product_id j = OrderItem.product_id i) orderItems = Some i"
        using lines i(1) by (rule find_distinct_key)
      from stock i(1) obtain q' where q': "q' \<in> set (Product_collection s)"
        "Product.oid q' = OrderItem.product_id i" "OrderItem.quantity i \<le> Product.stock q'"
        by blast
      have "q' = q"
        using ids q'(1) q_in by (rule same_oid_same_product) (simp add: q'(2) i(2))
      with found q'(3) i(2) show ?thesis by auto
    qed
    then have "\<exists>r. orderProducts_map orderItems ?requested (0, [], []) = Inr r"
      by (intro orderProducts_map_in_stock) blast
    then obtain subtotal' stockUpdates orderProducts
      where "orderProducts_map orderItems ?requested (0, [], [])
        = Inr (subtotal', stockUpdates, orderProducts)"
      by (metis prod_cases3)
    with len upload show ?thesis
      by (simp add: CreateOrder_def CreateOrder_try_def items user Let_def newOrder_def
          writeOrder_def)
  qed
  from none some show ?thesis by blast
qed

theorem CreateOrder_prescription_gate_witness:
  "Payload.products antibiotics
     = Some [\<lparr>OrderItem.product_id = ''p2'', OrderItem.quantity = 2\<rparr>]
   \<and> Product.oid amoxicillin = ''p2''
   \<and> Product.requires_prescription amoxicillin
   \<and> CreateOrder env0 pharmacy antibiotics None alice_jwt
       = (Inl (AppError BAD_REQUEST ''Prescription required''), pharmacy)
   \<and> uploadToCloudinary env0 scan (generateOrderId (order_uuid env0)) ''medimart/prescriptions''
       = Inr ''https://cdn/medimart/prescriptions/3F2A9C''
   \<and> CreateOrder env0 pharmacy antibiotics (Some scan) alice_jwt
       = (Inr antibiotics_order, pharmacy_antibiotics)
   \<and> Order.prescription antibiotics_order = Some ''https://cdn/medimart/prescriptions/3F2A9C''
   \<and> Order.order_id antibiotics_order = generateOrderId (order_uuid env0)"
proof -
  let ?item = "\<lparr>OrderItem.product_id = ''p2'', OrderItem.quantity = 2\<rparr>"
  let ?url = "''https://cdn/medimart/prescriptions/3F2A9C''"
  have items: "Payload.products antibiotics = Some [?item]"
    by (simp add: antibiotics_def request_def)
  have user: "findRequestedUser pharmacy alice_jwt = Some alice"
    by (simp add: findRequestedUser_def pharmacy_def alice_def alice_jwt_def)
  have line: "?item \<in> set [?item]" by simp
  have p: "amoxicillin \<in> set (Product_collection pharmacy)"
    by (simp add: pharmacy_def)
  have ref: "Product.oid amoxicillin = OrderItem.product_id ?item"
    by (simp add: amoxicillin_def)
  have live: "Product.is_deleted amoxicillin = False"
    by (simp add: amoxicillin_def)
  have rx: "Product.requires_prescription amoxicillin"
    by (simp add: amoxicillin_def)
  note gate = CreateOrder_prescription_gate [OF items user line p ref live rx]
  have requested: "length (findRequestedProducts pharmacy (map OrderItem.product_id [?item]))
      = length [?item]"
    by (simp add: findRequestedProducts_def pharmacy_def paracetamol_def amoxicillin_def)
  have none: "CreateOrder env0 pharmacy antibiotics None alice_jwt
       = (Inl (AppError BAD_REQUEST ''Prescription required''), pharmacy)"
    using gate [of None env0] requested by simp
  have order_id': "generateOrderId (order_uuid env0) = ''3F2A9C''"
    by code_simp
  have url: "uploadToCloudinary env0 scan (generateOrderId (order_uuid env0))
      ''medimart/prescriptions'' = Inr ?url"
    by (simp add: order_id') (simp add: env0_def)
  have ids: "distinct (map Product.oid (Product_collection pharmacy))"
    by (simp add: pharmacy_def paracetamol_def amoxicillin_def)
  have stock: "\<forall>i\<in>set [?item]. \<exists>q\<in>set (Product_collection pharmacy).
      Product.oid q = OrderItem.product_id i \<and> Product.is_deleted q = False
      \<and> OrderItem.quantity i \<le> Product.stock q"
    by (simp add: pharmacy_def paracetamol_def amoxicillin_def)
  from gate [of "Some scan" env0] url ids stock
  obtain order s' where "CreateOrder env0 pharmacy antibiotics (Some scan) alice_jwt
      = (Inr order, s')" and "Order.prescription order = Some ?url"
    and "Order.order_id order = generateOrderId (order_uuid env0)"
    by auto
  with CreateOrder_antibiotics
  have "Order.prescription antibiotics_order = Some ?url"
    and "Order.order_id antibiotics_order = generateOrderId (order_uuid env0)"
    by simp_all
  with items ref rx none url CreateOrder_antibiotics show ?thesis
    by (simp add: amoxicillin_def)
qed

subsection \<open>A product that does not resolve\<close>

text \<open>
  C8, as the claim states it, fails: the error raised for a product that does not resolve
  carries the status \<open>BAD_REQUEST\<close>, not \<open>NOT_FOUND\<close>.
\<close>

theorem CreateOrder_product_not_found_counterexample:
  "Payload.products unknown_product
     = Some [\<lparr>OrderItem.product_id = ''p9'', OrderItem.quantity = 1\<rparr>]
   \<and> map Product.oid (Product_collection pharmacy) = [''p1'', ''p2'']
   \<and> CreateOrder env0 pharmacy unknown_product None alice_jwt
       = (Inl (AppError BAD_REQUEST ''Product not found''), pharmacy)
   \<and> statusCode (AppError BAD_REQUEST ''Product not found'') \<noteq> NOT_FOUND"
  by code_simp

text \<open>
  C8, amended. For every order request of a user that resolves, in which some referenced
  product id does not resolve to a product that is not deleted, \<open>CreateOrder\<close> fails with
  the BadRequest error ``Product not found'' and writes nothing. (Identifiers of the
  product collection are distinct.)
\<close>

theorem CreateOrder_product_not_found:
  assumes items: "Payload.products payload = Some orderItems"
    and user: "findRequestedUser s user = Some requestedUser"
    and ids: "distinct (map Product.oid (Product_collection s))"
    and line: "item \<in> set orderItems"
    and unresolved: "\<not> (\<exists>p\<in>set (Product_collection s).
        Product.oid p = OrderItem.product_id item \<and> Product.is_deleted p = False)"
  shows "CreateOrder env s payload file user
     = (Inl (AppError BAD_REQUEST ''Product not found''), s)"
proof -
  have "OrderItem.product_id item \<in> set (map OrderItem.product_id orderItems)"
    using line by simp
  with ids have "length (findRequestedProducts s (map OrderItem.product_id orderItems))
      \<noteq> length (map OrderItem.product_id orderItems)"
    using unresolved by (rule findRequestedProducts_unresolved)
  then show ?thesis
    by (simp add: CreateOrder_def CreateOrder_try_def items user Let_def)
qed

theorem CreateOrder_product_not_found_witness:
  "findRequestedUser pharmacy alice_jwt = Some alice
   \<and> distinct (map Product.oid (Product_collection pharmacy))
   \<and> Payload.products unknown_product
       = Some [\<lparr>OrderItem.product_id = ''p9'', OrderItem.quantity = 1\<rparr>]
   \<and> CreateOrder env0 pharmacy unknown_product (Some scan) alice_jwt
       = (Inl (AppError BAD_REQUEST ''Product not found''), pharmacy)"
proof -
  let ?item = "\<lparr>OrderItem.product_id = ''p9'', OrderItem.quantity = 1\<rparr>"
  have items: "Payload.products unknown_product = Some [?item]"
    by (simp add: unknown_product_def request_def)
  have user: "findRequestedUser pharmacy alice_jwt = Some alice"
    by (simp add: findRequestedUser_def pharmacy_def alice_def alice_jwt_def)
  have ids: "distinct (map Product.oid (Product_collection pharmacy))"
    by (simp add: pharmacy_def paracetamol_def amoxicillin_def)
  have line: "?item \<in> set [?item]" by simp
  have unresolved: "\<not> (\<exists>p\<in>set (Product_collection pharmacy).
        Product.oid p = OrderItem.product_id ?item \<and> Product.is_deleted p = False)"
    by (simp add: pharmacy_def paracetamol_def amoxicillin_def)
  from CreateOrder_product_not_found [OF items user ids line unresolved, of env0 "Some scan"]
    user ids items
  show ?thesis by simp
qed

end
